theory Spec2Isabelle
  imports Complex_Main
begin

section \<open>Values, errors and arrays\<close>

text \<open>
  The module works on numpy arrays obtained from \<^verbatim>\<open>get_fdata()\<close> (float64) and on the
  boolean arrays it derives from them. A float64 element is a real number, one of the two
  infinities, or NaN; the comparisons below are the IEEE ones numpy applies elementwise
  (every ordered comparison with NaN is false, \<^verbatim>\<open>!=\<close> is the negation of \<^verbatim>\<open>==\<close>).
\<close>

datatype scalar = Fin real | PInf | NInf | NaN

fun np_less :: "scalar \<Rightarrow> scalar \<Rightarrow> bool" where
  "np_less NaN _ = False"
| "np_less _ NaN = False"
| "np_less (Fin a) (Fin b) = (a < b)"
| "np_less NInf NInf = False"
| "np_less NInf _ = True"
| "np_less _ NInf = False"
| "np_less PInf _ = False"
| "np_less _ PInf = True"

definition np_greater :: "scalar \<Rightarrow> scalar \<Rightarrow> bool" where
  "np_greater a b = np_less b a"

definition np_equal :: "scalar \<Rightarrow> scalar \<Rightarrow> bool" where
  "np_equal a b = (a \<noteq> NaN \<and> b \<noteq> NaN \<and> a = b)"

definition np_not_equal :: "scalar \<Rightarrow> scalar \<Rightarrow> bool" where
  "np_not_equal a b = (\<not> np_equal a b)"

text \<open>
  Exceptions are values. \<open>AttributeError\<close> carries the type name of the object and the
  attribute that was looked up; \<open>External\<close> is a failure raised inside a collaborator
  (image loading, registration, the dataset query, the diffusion accessor).
\<close>

datatype error =
    TypeError string
  | RuntimeError string
  | KeyError string
  | IndexError string
  | ValueError string
  | AttributeError string string
  | External string

type_synonym 'a result = "error + 'a"

definition bind :: "'a result \<Rightarrow> ('a \<Rightarrow> 'b result) \<Rightarrow> 'b result" where
  "bind r f = (case r of Inl e \<Rightarrow> Inl e | Inr v \<Rightarrow> f v)"

definition external :: "string + 'a \<Rightarrow> 'a result" where
  "external r = (case r of Inl msg \<Rightarrow> Inl (External msg) | Inr v \<Rightarrow> Inr v)"

text \<open>
  An n-dimensional array: its shape and its elements in row-major order. A well-formed
  array has as many elements as its shape says.
\<close>

record 'a ndarray =
  shape :: "nat list"
  data :: "'a list"

definition wf_array :: "'a ndarray \<Rightarrow> bool" where
  "wf_array a = (length (data a) = prod_list (shape a))"

definition np_full :: "nat list \<Rightarrow> 'a \<Rightarrow> 'a ndarray" where
  "np_full s v = \<lparr>shape = s, data = replicate (prod_list s) v\<rparr>"

definition np_zeros_bool :: "nat list \<Rightarrow> bool ndarray" where
  "np_zeros_bool s = np_full s False"

definition np_ones_bool :: "nat list \<Rightarrow> bool ndarray" where
  "np_ones_bool s = np_full s True"

definition np_ones :: "nat list \<Rightarrow> scalar ndarray" where
  "np_ones s = np_full s (Fin 1)"

definition map_array :: "('a \<Rightarrow> 'b) \<Rightarrow> 'a ndarray \<Rightarrow> 'b ndarray" where
  "map_array f a = \<lparr>shape = shape a, data = map f (data a)\<rparr>"

subsection \<open>Broadcasting of the binary ufuncs\<close>

text \<open>
  numpy aligns two shapes at their last axis; two axis lengths are compatible when they
  are equal or one of them is 1. \<open>bshape_rev\<close> works on the reversed shapes.
\<close>

fun bshape_rev :: "nat list \<Rightarrow> nat list \<Rightarrow> nat list option" where
  "bshape_rev [] ys = Some ys"
| "bshape_rev xs [] = Some xs"
| "bshape_rev (x # xs) (y # ys) =
     (if x = y \<or> y = 1 then map_option ((#) x) (bshape_rev xs ys)
      else if x = 1 then map_option ((#) y) (bshape_rev xs ys)
      else None)"

definition broadcast_shapes :: "nat list \<Rightarrow> nat list \<Rightarrow> nat list option" where
  "broadcast_shapes a b = map_option rev (bshape_rev (rev a) (rev b))"

definition chunks :: "nat \<Rightarrow> nat \<Rightarrow> 'a list \<Rightarrow> 'a list list" where
  "chunks n k xs = map (\<lambda>i. take n (drop (i * n) xs)) [0..<k]"

fun expand :: "nat list \<Rightarrow> nat list \<Rightarrow> 'a list \<Rightarrow> 'a list" where
  "expand (t # ts) (s # ss) xs =
     (if s = t then concat (map (expand ts ss) (chunks (prod_list ss) s xs))
      else concat (replicate t (expand ts ss xs)))"
| "expand _ _ xs = xs"

definition broadcast_to :: "nat list \<Rightarrow> 'a ndarray \<Rightarrow> 'a list" where
  "broadcast_to target a =
     expand target (replicate (length target - length (shape a)) 1 @ shape a) (data a)"

definition np_logical :: "(bool \<Rightarrow> bool \<Rightarrow> bool) \<Rightarrow> bool ndarray \<Rightarrow> bool ndarray
    \<Rightarrow> bool ndarray result" where
  "np_logical f a b =
     (if shape a = shape b
      then Inr \<lparr>shape = shape a, data = map2 f (data a) (data b)\<rparr>
      else (case broadcast_shapes (shape a) (shape b) of
              None \<Rightarrow> Inl (ValueError ''operands could not be broadcast together'')
            | Some s \<Rightarrow>
                Inr \<lparr>shape = s, data = map2 f (broadcast_to s a) (broadcast_to s b)\<rparr>))"

definition np_logical_or :: "bool ndarray \<Rightarrow> bool ndarray \<Rightarrow> bool ndarray result" where
  "np_logical_or = np_logical (\<or>)"

definition np_logical_and :: "bool ndarray \<Rightarrow> bool ndarray \<Rightarrow> bool ndarray result" where
  "np_logical_and = np_logical (\<and>)"

section \<open>The mask combiner\<close>

text \<open>
  \<^verbatim>\<open>_MaskCombiner\<close>: the operator tag and the running boolean array. The constructor
  stores the tag and then builds the identity array of the operator, or raises through
  \<^verbatim>\<open>combine_illdefined\<close>. \<^verbatim>\<open>combine_mask\<close> mutates the object, so it returns the outcome
  of the call together with the object as the call leaves it.
\<close>

record MaskCombiner =
  combine :: string
  mask :: "bool ndarray"

definition quoted :: "string \<Rightarrow> string" where
  "quoted s = CHR 0x27 # s @ [CHR 0x27]"

definition combine_illdefined_message :: "string \<Rightarrow> string" where
  "combine_illdefined_message c =
     ''combine should be either '' @ quoted ''or'' @ '' or '' @ quoted ''and'' @ '','' @
     '' you set combine to '' @ c"

definition combine_illdefined :: "string \<Rightarrow> 'a result" where
  "combine_illdefined c = Inl (TypeError (combine_illdefined_message c))"

definition MaskCombiner_init :: "nat list \<Rightarrow> string \<Rightarrow> MaskCombiner result" where
  "MaskCombiner_init shp c =
     (if c = ''or'' then Inr \<lparr>combine = c, mask = np_zeros_bool shp\<rparr>
      else if c = ''and'' then Inr \<lparr>combine = c, mask = np_ones_bool shp\<rparr>
      else combine_illdefined c)"

definition combine_mask :: "MaskCombiner \<Rightarrow> bool ndarray \<Rightarrow> unit result \<times> MaskCombiner" where
  "combine_mask self other_mask =
     (if combine self = ''or'' then
        (case np_logical_or (mask self) other_mask of
           Inl e \<Rightarrow> (Inl e, self)
         | Inr m \<Rightarrow> (Inr (), self\<lparr>mask := m\<rparr>))
      else if combine self = ''and'' then
        (case np_logical_and (mask self) other_mask of
           Inl e \<Rightarrow> (Inl e, self)
         | Inr m \<Rightarrow> (Inr (), self\<lparr>mask := m\<rparr>))
      else (combine_illdefined (combine self), self))"

section \<open>Collaborators\<close>

text \<open>
  The image loader, the registration service, the dataset query and the diffusion context
  are outside the module. Each is a function that returns its value or fails with a
  message; \<open>external\<close> turns the failure into the exception seen here.
\<close>

type_synonym affine = "real list list"

record nifti =
  fdata :: "scalar ndarray"
  affine :: "affine option"

record row =
  ses :: string
  subject :: string

record world =
  nib_load :: "string \<Rightarrow> string + nifti"
  reg_resample :: "scalar ndarray \<Rightarrow> scalar ndarray \<Rightarrow> affine option \<Rightarrow> affine option
    \<Rightarrow> string + scalar ndarray"

type_synonym gtab = unit

record afq =
  get_data_gtab :: "row \<Rightarrow> string + (scalar ndarray \<times> gtab \<times> nifti)"
  scalar_dict :: "(string \<times> (row \<Rightarrow> string + string)) list"

record query =
  q_subject :: string
  q_session :: string
  q_extension :: string
  q_suffix :: string
  q_return_type :: string
  q_scope :: "string option"

type_synonym bids_layout = "query \<Rightarrow> string + string list"

section \<open>Mask data and metadata\<close>

datatype dtype = Bool | Float64

datatype mask_data = BoolArray "bool ndarray" | FloatArray "scalar ndarray"

fun dtype_of :: "mask_data \<Rightarrow> dtype" where
  "dtype_of (BoolArray _) = Bool"
| "dtype_of (FloatArray _) = Float64"

fun shape_of :: "mask_data \<Rightarrow> nat list" where
  "shape_of (BoolArray a) = shape a"
| "shape_of (FloatArray a) = shape a"

text \<open>The truth value numpy's logical ufuncs give an element: non-zero is true.\<close>

fun truth :: "mask_data \<Rightarrow> bool ndarray" where
  "truth (BoolArray a) = a"
| "truth (FloatArray a) = map_array (\<lambda>v. v \<noteq> Fin 0) a"

datatype meta_val =
    MStr string
  | MNone
  | MNum scalar
  | MInts "int list"
  | MList "meta_val list"
  | MDict "(string \<times> meta_val) list"

type_synonym meta = "(string \<times> meta_val) list"

definition meta_bound :: "scalar option \<Rightarrow> meta_val" where
  "meta_bound b = (case b of None \<Rightarrow> MNone | Some v \<Rightarrow> MNum v)"

definition meta_labels :: "int list option \<Rightarrow> meta_val" where
  "meta_labels ls = (case ls of None \<Rightarrow> MNone | Some l \<Rightarrow> MInts l)"

section \<open>Resampling\<close>

text \<open>
  \<^verbatim>\<open>dwi_data[..., 0]\<close>: the first entry along the last axis. It raises IndexError on a
  0-dimensional array and on an array whose last axis is empty.
\<close>

fun stride :: "nat \<Rightarrow> 'a list \<Rightarrow> 'a list" where
  "stride n [] = []"
| "stride n (x # xs) = x # stride n (drop (n - 1) xs)"

definition index_last0 :: "'a ndarray \<Rightarrow> 'a ndarray result" where
  "index_last0 a =
     (if shape a = [] then Inl (IndexError ''too many indices for array'')
      else if last (shape a) = 0
      then Inl (IndexError ''index 0 is out of bounds for axis with size 0'')
      else Inr \<lparr>shape = butlast (shape a), data = stride (last (shape a)) (data a)\<rparr>)"

definition astype_float :: "mask_data \<Rightarrow> scalar ndarray" where
  "astype_float m =
     (case m of BoolArray a \<Rightarrow> map_array (\<lambda>b. if b then Fin 1 else Fin 0) a
              | FloatArray a \<Rightarrow> a)"

text \<open>\<^verbatim>\<open>np.round\<close> rounds half to even and leaves infinities and NaN as they are.\<close>

definition round_half_even :: "real \<Rightarrow> real" where
  "round_half_even x =
     (let f = \<lfloor>x\<rfloor>; d = x - of_int f
      in if d < 1 / 2 then of_int f
         else if 1 / 2 < d then of_int (f + 1)
         else if even f then of_int f else of_int (f + 1))"

fun round_scalar :: "scalar \<Rightarrow> scalar" where
  "round_scalar (Fin x) = Fin (round_half_even x)"
| "round_scalar v = v"

definition np_round :: "scalar ndarray \<Rightarrow> scalar ndarray" where
  "np_round a = map_array round_scalar a"

fun astype :: "scalar ndarray \<Rightarrow> dtype \<Rightarrow> mask_data" where
  "astype a Bool = BoolArray (map_array (\<lambda>v. v \<noteq> Fin 0) a)"
| "astype a Float64 = FloatArray a"

definition resample_mask :: "world \<Rightarrow> mask_data \<Rightarrow> scalar ndarray option \<Rightarrow> affine option
    \<Rightarrow> affine option \<Rightarrow> mask_data result" where
  "resample_mask w mask_data dwi_data mask_affine dwi_affine =
     (let mask_type = dtype_of mask_data
      in case dwi_data of
           None \<Rightarrow> Inr mask_data
         | Some dwi \<Rightarrow>
             (case dwi_affine of
                None \<Rightarrow> Inr mask_data
              | Some _ \<Rightarrow>
                  bind (index_last0 dwi) (\<lambda>ref.
                    if shape ref \<noteq> shape_of mask_data
                    then bind (external (reg_resample w (astype_float mask_data) ref
                                           mask_affine dwi_affine))
                           (\<lambda>r. Inr (astype (np_round r) mask_type))
                    else Inr mask_data)))"

section \<open>Classes and method resolution\<close>

text \<open>
  The classes of the module, their bases as the \<^verbatim>\<open>class\<close> statements give them, and the
  methods each class body defines. A call on an object is resolved along the resolution
  order of its class (Python's C3 linearisation); a name that no class of the order
  defines raises AttributeError.
\<close>

datatype cls =
    C_object
  | C_NoneType
  | C_MaskCombiner
  | C_MaskFile
  | C_FullMask
  | C_LabelledMaskFile
  | C_ThresholdedMaskFile
  | C_ScalarMask
  | C_ThresholdedScalarMask
  | C_CombinedMask

datatype py_method =
    M_init
  | M_find_path
  | M_get_path_data_affine
  | M_apply_conditions
  | M_get_mask
  | M_combine_mask
  | M_combine_illdefined

fun class_name :: "cls \<Rightarrow> string" where
  "class_name C_object = ''object''"
| "class_name C_NoneType = ''NoneType''"
| "class_name C_MaskCombiner = ''_MaskCombiner''"
| "class_name C_MaskFile = ''MaskFile''"
| "class_name C_FullMask = ''FullMask''"
| "class_name C_LabelledMaskFile = ''LabelledMaskFile''"
| "class_name C_ThresholdedMaskFile = ''ThresholdedMaskFile''"
| "class_name C_ScalarMask = ''ScalarMask''"
| "class_name C_ThresholdedScalarMask = ''ThresholdedScalarMask''"
| "class_name C_CombinedMask = ''CombinedMask''"

fun method_name :: "py_method \<Rightarrow> string" where
  "method_name M_init = ''__init__''"
| "method_name M_find_path = ''find_path''"
| "method_name M_get_path_data_affine = ''get_path_data_affine''"
| "method_name M_apply_conditions = ''apply_conditions''"
| "method_name M_get_mask = ''get_mask''"
| "method_name M_combine_mask = ''combine_mask''"
| "method_name M_combine_illdefined = ''combine_illdefined''"

fun bases :: "cls \<Rightarrow> cls list" where
  "bases C_object = []"
| "bases C_NoneType = [C_object]"
| "bases C_MaskCombiner = [C_object]"
| "bases C_MaskFile = [C_object]"
| "bases C_FullMask = [C_object]"
| "bases C_LabelledMaskFile = [C_MaskFile]"
| "bases C_ThresholdedMaskFile = [C_MaskFile]"
| "bases C_ScalarMask = [C_MaskFile]"
| "bases C_ThresholdedScalarMask = [C_ThresholdedMaskFile, C_ScalarMask]"
| "bases C_CombinedMask = [C_object]"

fun class_body :: "cls \<Rightarrow> py_method list" where
  "class_body C_object = [M_init]"
| "class_body C_NoneType = []"
| "class_body C_MaskCombiner = [M_init, M_combine_mask, M_combine_illdefined]"
| "class_body C_MaskFile =
     [M_init, M_find_path, M_get_path_data_affine, M_apply_conditions, M_get_mask]"
| "class_body C_FullMask = [M_find_path, M_get_mask]"
| "class_body C_LabelledMaskFile = [M_init, M_apply_conditions]"
| "class_body C_ThresholdedMaskFile = [M_init, M_apply_conditions]"
| "class_body C_ScalarMask = [M_init, M_find_path, M_get_path_data_affine]"
| "class_body C_ThresholdedScalarMask = [M_init]"
| "class_body C_CombinedMask = [M_init, M_find_path, M_get_mask]"

text \<open>
  The C3 merge: repeatedly take the first head that is in no tail. The fuel bounds the
  number of classes taken; \<open>mro\<close> supplies more than the hierarchy needs.
\<close>

fun c3_merge :: "nat \<Rightarrow> cls list list \<Rightarrow> cls list option" where
  "c3_merge n seqs =
     (let live = filter (\<lambda>s. s \<noteq> []) seqs
      in if live = [] then Some []
         else (case n of
                 0 \<Rightarrow> None
               | Suc k \<Rightarrow>
                   (case find (\<lambda>c. list_all (\<lambda>s. \<not> List.member (tl s) c) live)
                           (map hd live) of
                      None \<Rightarrow> None
                    | Some c \<Rightarrow>
                        map_option ((#) c)
                          (c3_merge k (map (\<lambda>s. if hd s = c then tl s else s) live)))))"

fun mro_fuel :: "nat \<Rightarrow> cls \<Rightarrow> cls list option" where
  "mro_fuel 0 C = None"
| "mro_fuel (Suc n) C =
     (case those (map (mro_fuel n) (bases C)) of
        None \<Rightarrow> None
      | Some ls \<Rightarrow>
          map_option ((#) C)
            (c3_merge (sum_list (map length ls) + length (bases C)) (ls @ [bases C])))"

definition mro :: "cls \<Rightarrow> cls list option" where
  "mro C = mro_fuel 10 C"

definition lookup_method :: "cls \<Rightarrow> py_method \<Rightarrow> cls option" where
  "lookup_method C m =
     (case mro C of
        None \<Rightarrow> None
      | Some order \<Rightarrow> find (\<lambda>D. List.member (class_body D) m) order)"

definition no_attribute :: "cls \<Rightarrow> string \<Rightarrow> 'a result" where
  "no_attribute C name = Inl (AttributeError (class_name C) name)"

section \<open>Mask objects\<close>

text \<open>
  One constructor per class, holding the instance attributes its \<^verbatim>\<open>__init__\<close> sets:
  \<^item> \<open>MaskFile suffix scope fnames\<close>;
  \<^item> \<open>LabelledMaskFile suffix scope fnames ilabels elabels combine\<close>;
  \<^item> \<open>ThresholdedMaskFile suffix scope fnames lb ub combine\<close>;
  \<^item> \<open>ScalarMask scalar_name\<close> and \<open>ThresholdedScalarMask scalar_name lb ub combine\<close>,
    whose \<^verbatim>\<open>__init__\<close> does not call the base one, so they have no \<^verbatim>\<open>fnames\<close>;
  \<^item> \<open>CombinedMask mask_list combine\<close>.

  \<^verbatim>\<open>fnames\<close> is the dictionary of dictionaries session \<open>\<rightharpoonup>\<close> subject \<open>\<rightharpoonup>\<close> file name.
\<close>

type_synonym fnames = "string \<Rightarrow> (string \<Rightarrow> string option) option"

datatype mask =
    MaskFile string "string option" fnames
  | FullMask
  | LabelledMaskFile string "string option" fnames "int list option" "int list option" string
  | ThresholdedMaskFile string "string option" fnames "scalar option" "scalar option" string
  | ScalarMask string
  | ThresholdedScalarMask string "scalar option" "scalar option" string
  | CombinedMask "mask list" string

fun class_of :: "mask \<Rightarrow> cls" where
  "class_of (MaskFile _ _ _) = C_MaskFile"
| "class_of FullMask = C_FullMask"
| "class_of (LabelledMaskFile _ _ _ _ _ _) = C_LabelledMaskFile"
| "class_of (ThresholdedMaskFile _ _ _ _ _ _) = C_ThresholdedMaskFile"
| "class_of (ScalarMask _) = C_ScalarMask"
| "class_of (ThresholdedScalarMask _ _ _ _) = C_ThresholdedScalarMask"
| "class_of (CombinedMask _ _) = C_CombinedMask"

subsection \<open>Instance attributes\<close>

fun attr_fnames :: "mask \<Rightarrow> fnames result" where
  "attr_fnames (MaskFile _ _ fn) = Inr fn"
| "attr_fnames (LabelledMaskFile _ _ fn _ _ _) = Inr fn"
| "attr_fnames (ThresholdedMaskFile _ _ fn _ _ _) = Inr fn"
| "attr_fnames self = no_attribute (class_of self) ''fnames''"

fun set_fnames :: "mask \<Rightarrow> fnames \<Rightarrow> mask" where
  "set_fnames (MaskFile sfx scp _) fn = MaskFile sfx scp fn"
| "set_fnames (LabelledMaskFile sfx scp _ il el c) fn = LabelledMaskFile sfx scp fn il el c"
| "set_fnames (ThresholdedMaskFile sfx scp _ lb ub c) fn = ThresholdedMaskFile sfx scp fn lb ub c"
| "set_fnames self fn = self"

fun attr_suffix :: "mask \<Rightarrow> string result" where
  "attr_suffix (MaskFile sfx _ _) = Inr sfx"
| "attr_suffix (LabelledMaskFile sfx _ _ _ _ _) = Inr sfx"
| "attr_suffix (ThresholdedMaskFile sfx _ _ _ _ _) = Inr sfx"
| "attr_suffix self = no_attribute (class_of self) ''suffix''"

fun attr_scope :: "mask \<Rightarrow> string option result" where
  "attr_scope (MaskFile _ scp _) = Inr scp"
| "attr_scope (LabelledMaskFile _ scp _ _ _ _) = Inr scp"
| "attr_scope (ThresholdedMaskFile _ scp _ _ _ _) = Inr scp"
| "attr_scope self = no_attribute (class_of self) ''scope''"

fun attr_combine :: "mask \<Rightarrow> string result" where
  "attr_combine (LabelledMaskFile _ _ _ _ _ c) = Inr c"
| "attr_combine (ThresholdedMaskFile _ _ _ _ _ c) = Inr c"
| "attr_combine (ThresholdedScalarMask _ _ _ c) = Inr c"
| "attr_combine (CombinedMask _ c) = Inr c"
| "attr_combine self = no_attribute (class_of self) ''combine''"

fun attr_ilabels :: "mask \<Rightarrow> int list option result" where
  "attr_ilabels (LabelledMaskFile _ _ _ il _ _) = Inr il"
| "attr_ilabels self = no_attribute (class_of self) ''ilabels''"

fun attr_elabels :: "mask \<Rightarrow> int list option result" where
  "attr_elabels (LabelledMaskFile _ _ _ _ el _) = Inr el"
| "attr_elabels self = no_attribute (class_of self) ''elabels''"

fun attr_lb :: "mask \<Rightarrow> scalar option result" where
  "attr_lb (ThresholdedMaskFile _ _ _ lb _ _) = Inr lb"
| "attr_lb (ThresholdedScalarMask _ lb _ _) = Inr lb"
| "attr_lb self = no_attribute (class_of self) ''lb''"

fun attr_ub :: "mask \<Rightarrow> scalar option result" where
  "attr_ub (ThresholdedMaskFile _ _ _ _ ub _) = Inr ub"
| "attr_ub (ThresholdedScalarMask _ _ ub _) = Inr ub"
| "attr_ub self = no_attribute (class_of self) ''ub''"

fun attr_scalar_name :: "mask \<Rightarrow> string result" where
  "attr_scalar_name (ScalarMask n) = Inr n"
| "attr_scalar_name (ThresholdedScalarMask n _ _ _) = Inr n"
| "attr_scalar_name self = no_attribute (class_of self) ''scalar_name''"

fun attr_mask_list :: "mask \<Rightarrow> mask list result" where
  "attr_mask_list (CombinedMask ms _) = Inr ms"
| "attr_mask_list self = no_attribute (class_of self) ''mask_list''"

section \<open>Methods\<close>

subsection \<open>MaskFile\<close>

definition MaskFile_new :: "string \<Rightarrow> string option \<Rightarrow> mask" where
  "MaskFile_new sfx scp = MaskFile sfx scp Map.empty"

definition first_item :: "'a list \<Rightarrow> 'a result" where
  "first_item xs = (case xs of [] \<Rightarrow> Inl (IndexError ''list index out of range'') | x # _ \<Rightarrow> Inr x)"

definition subscript :: "(string \<Rightarrow> 'a option) \<Rightarrow> string \<Rightarrow> 'a result" where
  "subscript d k = (case d k of None \<Rightarrow> Inl (KeyError k) | Some v \<Rightarrow> Inr v)"

text \<open>
  \<^verbatim>\<open>find_path\<close> mutates \<^verbatim>\<open>self.fnames\<close>: the outcome of the call comes with the object as
  the call leaves it. The session entry is created before the query runs, so it stays
  when the query fails or finds nothing.
\<close>

definition MaskFile_find_path :: "bids_layout \<Rightarrow> string \<Rightarrow> string \<Rightarrow> mask
    \<Rightarrow> unit result \<times> mask" where
  "MaskFile_find_path bids_layout subj session self =
     (case attr_fnames self of
        Inl e \<Rightarrow> (Inl e, self)
      | Inr fn \<Rightarrow>
          (let fn1 = (if fn session = None then fn(session \<mapsto> Map.empty) else fn);
               self1 = set_fnames self fn1;
               found =
                 bind (attr_suffix self1) (\<lambda>sfx.
                 bind (attr_scope self1) (\<lambda>scp.
                 bind (external (bids_layout
                         \<lparr>q_subject = subj, q_session = session, q_extension = ''.nii.gz'',
                          q_suffix = sfx, q_return_type = ''filename'', q_scope = scp\<rparr>))
                   first_item))
           in case found of
                Inl e \<Rightarrow> (Inl e, self1)
              | Inr file \<Rightarrow>
                  (case subscript fn1 session of
                     Inl e \<Rightarrow> (Inl e, self1)
                   | Inr d \<Rightarrow> (Inr (), set_fnames self1 (fn1(session \<mapsto> d(subj \<mapsto> file)))))))"

definition cached_path :: "mask \<Rightarrow> row \<Rightarrow> string result" where
  "cached_path self r =
     bind (attr_fnames self) (\<lambda>fn.
     bind (subscript fn (ses r)) (\<lambda>d. subscript d (subject r)))"

definition MaskFile_get_path_data_affine :: "world \<Rightarrow> afq \<Rightarrow> row \<Rightarrow> mask
    \<Rightarrow> (string \<times> scalar ndarray \<times> affine option) result" where
  "MaskFile_get_path_data_affine w a r self =
     bind (cached_path self r) (\<lambda>mask_file.
     bind (external (nib_load w mask_file)) (\<lambda>mask_img.
       Inr (mask_file, fdata mask_img, affine mask_img)))"

definition MaskFile_apply_conditions :: "mask \<Rightarrow> scalar ndarray \<Rightarrow> string
    \<Rightarrow> (mask_data \<times> meta) result" where
  "MaskFile_apply_conditions self mask_data_orig mask_file =
     Inr (FloatArray mask_data_orig, [(''source'', MStr mask_file)])"

subsection \<open>LabelledMaskFile and ThresholdedMaskFile\<close>

text \<open>One \<^verbatim>\<open>mask.combine_mask(...)\<close> statement on the local combiner.\<close>

definition fold_in :: "MaskCombiner \<Rightarrow> bool ndarray \<Rightarrow> MaskCombiner result" where
  "fold_in m other = (case combine_mask m other of (Inl e, _) \<Rightarrow> Inl e | (Inr _, m') \<Rightarrow> Inr m')"

definition scalar_of_int :: "int \<Rightarrow> scalar" where
  "scalar_of_int l = Fin (of_int l)"

fun fold_labels :: "(scalar \<Rightarrow> scalar \<Rightarrow> bool) \<Rightarrow> scalar ndarray \<Rightarrow> int list \<Rightarrow> MaskCombiner
    \<Rightarrow> MaskCombiner result" where
  "fold_labels cmp a [] m = Inr m"
| "fold_labels cmp a (l # ls) m =
     bind (fold_in m (map_array (\<lambda>v. cmp v (scalar_of_int l)) a)) (fold_labels cmp a ls)"

definition fold_optional_labels :: "(scalar \<Rightarrow> scalar \<Rightarrow> bool) \<Rightarrow> scalar ndarray
    \<Rightarrow> int list option \<Rightarrow> MaskCombiner \<Rightarrow> MaskCombiner result" where
  "fold_optional_labels cmp a labels m =
     (case labels of None \<Rightarrow> Inr m | Some ls \<Rightarrow> fold_labels cmp a ls m)"

definition LabelledMaskFile_apply_conditions :: "mask \<Rightarrow> scalar ndarray \<Rightarrow> string
    \<Rightarrow> (mask_data \<times> meta) result" where
  "LabelledMaskFile_apply_conditions self mask_data_orig mask_file =
     bind (attr_combine self) (\<lambda>c.
     bind (MaskCombiner_init (shape mask_data_orig) c) (\<lambda>m0.
     bind (attr_ilabels self) (\<lambda>ilabels.
     bind (fold_optional_labels np_equal mask_data_orig ilabels m0) (\<lambda>m1.
     bind (attr_elabels self) (\<lambda>elabels.
     bind (fold_optional_labels np_not_equal mask_data_orig elabels m1) (\<lambda>m2.
       Inr (BoolArray (mask m2),
            [(''source'', MStr mask_file),
             (''inclusive_labels'', meta_labels ilabels),
             (''exclusive_lavels'', meta_labels elabels),
             (''combined_with'', MStr c)])))))))"

definition fold_bound :: "(scalar \<Rightarrow> scalar \<Rightarrow> bool) \<Rightarrow> scalar ndarray \<Rightarrow> scalar option
    \<Rightarrow> MaskCombiner \<Rightarrow> MaskCombiner result" where
  "fold_bound cmp a bound m =
     (case bound of None \<Rightarrow> Inr m | Some b \<Rightarrow> fold_in m (map_array (\<lambda>v. cmp v b) a))"

definition ThresholdedMaskFile_apply_conditions :: "mask \<Rightarrow> scalar ndarray \<Rightarrow> string
    \<Rightarrow> (mask_data \<times> meta) result" where
  "ThresholdedMaskFile_apply_conditions self mask_data_orig mask_file =
     bind (attr_combine self) (\<lambda>c.
     bind (MaskCombiner_init (shape mask_data_orig) c) (\<lambda>m0.
     bind (attr_ub self) (\<lambda>ub.
     bind (fold_bound np_less mask_data_orig ub m0) (\<lambda>m1.
     bind (attr_lb self) (\<lambda>lb.
     bind (fold_bound np_greater mask_data_orig lb m1) (\<lambda>m2.
       Inr (BoolArray (mask m2),
            [(''source'', MStr mask_file),
             (''upper_bound'', meta_bound ub),
             (''lower_bound'', meta_bound lb),
             (''combined_with'', MStr c)])))))))"

subsection \<open>ScalarMask\<close>

fun join :: "string \<Rightarrow> string list \<Rightarrow> string" where
  "join sep [] = []"
| "join sep [x] = x"
| "join sep (x # y # ys) = x @ sep @ join sep (y # ys)"

definition ScalarMask_find_path :: "bids_layout \<Rightarrow> string \<Rightarrow> string \<Rightarrow> mask
    \<Rightarrow> unit result \<times> mask" where
  "ScalarMask_find_path bids_layout subj session self = (Inr (), self)"

definition ScalarMask_get_path_data_affine :: "world \<Rightarrow> afq \<Rightarrow> row \<Rightarrow> mask
    \<Rightarrow> (string \<times> scalar ndarray \<times> affine option) result" where
  "ScalarMask_get_path_data_affine w a r self =
     (let valid_scalars = map fst (scalar_dict a)
      in bind (attr_scalar_name self) (\<lambda>scalar_name.
           if \<not> List.member valid_scalars scalar_name
           then Inl (RuntimeError (''scalar should be one of '' @ join '', '' valid_scalars @
                                   '', you input '' @ scalar_name))
           else bind (subscript (map_of (scalar_dict a)) scalar_name) (\<lambda>f.
                bind (external (f r)) (\<lambda>scalar_fname.
                bind (external (nib_load w scalar_fname)) (\<lambda>scalar_img.
                  Inr (scalar_fname, fdata scalar_img, affine scalar_img))))))"

subsection \<open>Dynamic dispatch of the overridable steps\<close>

definition call_get_path_data_affine :: "world \<Rightarrow> afq \<Rightarrow> row \<Rightarrow> mask
    \<Rightarrow> (string \<times> scalar ndarray \<times> affine option) result" where
  "call_get_path_data_affine w a r self =
     (case lookup_method (class_of self) M_get_path_data_affine of
        Some C_MaskFile \<Rightarrow> MaskFile_get_path_data_affine w a r self
      | Some C_ScalarMask \<Rightarrow> ScalarMask_get_path_data_affine w a r self
      | _ \<Rightarrow> no_attribute (class_of self) (method_name M_get_path_data_affine))"

definition call_apply_conditions :: "mask \<Rightarrow> scalar ndarray \<Rightarrow> string
    \<Rightarrow> (mask_data \<times> meta) result" where
  "call_apply_conditions self mask_data_orig mask_file =
     (case lookup_method (class_of self) M_apply_conditions of
        Some C_MaskFile \<Rightarrow> MaskFile_apply_conditions self mask_data_orig mask_file
      | Some C_LabelledMaskFile \<Rightarrow> LabelledMaskFile_apply_conditions self mask_data_orig mask_file
      | Some C_ThresholdedMaskFile \<Rightarrow>
          ThresholdedMaskFile_apply_conditions self mask_data_orig mask_file
      | _ \<Rightarrow> no_attribute (class_of self) (method_name M_apply_conditions))"

definition MaskFile_get_mask :: "world \<Rightarrow> afq \<Rightarrow> row \<Rightarrow> mask \<Rightarrow> (mask_data \<times> meta) result" where
  "MaskFile_get_mask w a r self =
     bind (external (get_data_gtab a r)) (\<lambda>(dwi_data, _, dwi_img).
     bind (call_get_path_data_affine w a r self) (\<lambda>(mask_file, mask_data_orig, mask_affine).
     bind (call_apply_conditions self mask_data_orig mask_file) (\<lambda>(mask_data, meta).
     bind (resample_mask w mask_data (Some dwi_data) mask_affine (affine dwi_img))
       (\<lambda>mask_data'. Inr (mask_data', meta)))))"

subsection \<open>FullMask\<close>

definition FullMask_find_path :: "bids_layout \<Rightarrow> string \<Rightarrow> string \<Rightarrow> mask
    \<Rightarrow> unit result \<times> mask" where
  "FullMask_find_path bids_layout subj session self = (Inr (), self)"

definition FullMask_get_mask :: "world \<Rightarrow> afq \<Rightarrow> row \<Rightarrow> mask \<Rightarrow> (mask_data \<times> meta) result" where
  "FullMask_get_mask w a r self =
     bind (external (get_data_gtab a r)) (\<lambda>(dwi_data, _, _).
       Inr (FloatArray (np_ones (shape dwi_data)), [(''source'', MStr ''Entire Volume'')]))"

subsection \<open>CombinedMask\<close>

text \<open>
  In \<^verbatim>\<open>CombinedMask.get_mask\<close> the local name \<^verbatim>\<open>mask\<close> is bound to \<^verbatim>\<open>None\<close> before the
  loop, and it is also the loop variable of \<^verbatim>\<open>for mask in self.mask_list\<close>. The local is
  therefore one of three kinds of object, and \<^verbatim>\<open>mask.combine_mask\<close> and \<^verbatim>\<open>mask.mask\<close>
  are attribute lookups on whatever it holds at that point.
\<close>

datatype pyobj = PyNone | PyMask mask | PyCombiner MaskCombiner

fun class_of_obj :: "pyobj \<Rightarrow> cls" where
  "class_of_obj PyNone = C_NoneType"
| "class_of_obj (PyMask m) = class_of m"
| "class_of_obj (PyCombiner _) = C_MaskCombiner"

fun is_none :: "pyobj \<Rightarrow> bool" where
  "is_none PyNone = True"
| "is_none _ = False"

definition obj_combine_mask :: "pyobj \<Rightarrow> mask_data \<Rightarrow> pyobj result" where
  "obj_combine_mask obj next_mask =
     (case lookup_method (class_of_obj obj) M_combine_mask of
        Some C_MaskCombiner \<Rightarrow>
          (case obj of
             PyCombiner m \<Rightarrow> bind (fold_in m (truth next_mask)) (\<lambda>m'. Inr (PyCombiner m'))
           | _ \<Rightarrow> no_attribute (class_of_obj obj) (method_name M_combine_mask))
      | _ \<Rightarrow> no_attribute (class_of_obj obj) (method_name M_combine_mask))"

definition obj_mask :: "pyobj \<Rightarrow> bool ndarray result" where
  "obj_mask obj =
     (case obj of
        PyCombiner m \<Rightarrow> Inr (mask m)
      | _ \<Rightarrow> no_attribute (class_of_obj obj) ''mask'')"

fun get_mask :: "world \<Rightarrow> afq \<Rightarrow> row \<Rightarrow> mask \<Rightarrow> (mask_data \<times> meta) result"
  and CombinedMask_loop :: "world \<Rightarrow> afq \<Rightarrow> row \<Rightarrow> string \<Rightarrow> mask list \<Rightarrow> pyobj \<Rightarrow> meta list
    \<Rightarrow> (pyobj \<times> meta list) result" where
  "get_mask w a r self =
     (case lookup_method (class_of self) M_get_mask of
        Some C_MaskFile \<Rightarrow> MaskFile_get_mask w a r self
      | Some C_FullMask \<Rightarrow> FullMask_get_mask w a r self
      | Some C_CombinedMask \<Rightarrow>
          (case self of
             CombinedMask mask_list c \<Rightarrow>
               bind (CombinedMask_loop w a r c mask_list PyNone []) (\<lambda>(m, metas).
               bind (obj_mask m) (\<lambda>result.
                 Inr (BoolArray result,
                      [(''sources'', MList (map MDict metas)), (''combined_with'', MStr c)])))
           | _ \<Rightarrow> no_attribute (class_of self) ''mask_list'')
      | _ \<Rightarrow> no_attribute (class_of self) (method_name M_get_mask))"
| "CombinedMask_loop w a r c [] m metas = Inr (m, metas)"
| "CombinedMask_loop w a r c (child # rest) m metas =
     (let m = PyMask child
      in bind (get_mask w a r child) (\<lambda>(next_mask, next_meta).
         bind (if is_none m
               then bind (MaskCombiner_init (shape_of next_mask) c) (\<lambda>cm. Inr (PyCombiner cm))
               else obj_combine_mask m next_mask)
           (\<lambda>m'. CombinedMask_loop w a r c rest m' (metas @ [next_meta]))))"

fun find_path :: "bids_layout \<Rightarrow> string \<Rightarrow> string \<Rightarrow> mask \<Rightarrow> unit result \<times> mask"
  and CombinedMask_find_paths :: "bids_layout \<Rightarrow> string \<Rightarrow> string \<Rightarrow> mask list
    \<Rightarrow> unit result \<times> mask list" where
  "find_path bids_layout subj session self =
     (case lookup_method (class_of self) M_find_path of
        Some C_MaskFile \<Rightarrow> MaskFile_find_path bids_layout subj session self
      | Some C_FullMask \<Rightarrow> FullMask_find_path bids_layout subj session self
      | Some C_ScalarMask \<Rightarrow> ScalarMask_find_path bids_layout subj session self
      | Some C_CombinedMask \<Rightarrow>
          (case self of
             CombinedMask mask_list c \<Rightarrow>
               (case CombinedMask_find_paths bids_layout subj session mask_list of
                  (res, mask_list') \<Rightarrow> (res, CombinedMask mask_list' c))
           | _ \<Rightarrow> (no_attribute (class_of self) ''mask_list'', self))
      | _ \<Rightarrow> (no_attribute (class_of self) (method_name M_find_path), self))"
| "CombinedMask_find_paths bids_layout subj session [] = (Inr (), [])"
| "CombinedMask_find_paths bids_layout subj session (child # rest) =
     (case find_path bids_layout subj session child of
        (Inl e, child') \<Rightarrow> (Inl e, child' # rest)
      | (Inr _, child') \<Rightarrow>
          (case CombinedMask_find_paths bids_layout subj session rest of
             (res, rest') \<Rightarrow> (res, child' # rest')))"

section \<open>Notions used to state the properties\<close>

text \<open>
  The configuration errors are the ones the module raises itself for an invalid setting:
  the TypeError of \<^verbatim>\<open>combine_illdefined\<close> and the RuntimeError for an unknown scalar.
\<close>

fun is_configuration_error :: "error \<Rightarrow> bool" where
  "is_configuration_error (TypeError _) = True"
| "is_configuration_error (RuntimeError _) = True"
| "is_configuration_error _ = False"

definition raises_configuration_error :: "'a result \<Rightarrow> bool" where
  "raises_configuration_error r = (case r of Inl e \<Rightarrow> is_configuration_error e | Inr _ \<Rightarrow> False)"




text \<open>
  The file-backed masks are the instances whose \<^verbatim>\<open>find_path\<close> and
  \<^verbatim>\<open>get_path_data_affine\<close> are those of \<^verbatim>\<open>MaskFile\<close>. \<open>find_path_calls\<close> is a series of
  \<^verbatim>\<open>find_path\<close> calls on one instance, each with its own layout, subject and session;
  a call that raises leaves the instance as it was at the raise.
\<close>

definition file_backed :: "mask \<Rightarrow> bool" where
  "file_backed m =
     (class_of m = C_MaskFile \<or> class_of m = C_LabelledMaskFile
      \<or> class_of m = C_ThresholdedMaskFile)"




text \<open>
  The composition the specification describes for a thresholded scalar mask: the source
  resolution of a scalar mask, then the threshold conditions of a thresholded file mask,
  then the resampling onto the diffusion grid.
\<close>

definition composed_get_mask :: "world \<Rightarrow> afq \<Rightarrow> row \<Rightarrow> mask \<Rightarrow> mask
    \<Rightarrow> (mask_data \<times> meta) result" where
  "composed_get_mask w a r source conditions =
     bind (external (get_data_gtab a r)) (\<lambda>(dwi_data, _, dwi_img).
     bind (ScalarMask_get_path_data_affine w a r source) (\<lambda>(file, raw, mask_affine).
     bind (ThresholdedMaskFile_apply_conditions conditions raw file) (\<lambda>(mask_data, meta).
     bind (resample_mask w mask_data (Some dwi_data) mask_affine (affine dwi_img))
       (\<lambda>resampled. Inr (resampled, meta)))))"

subsection \<open>A small concrete setting\<close>

text \<open>
  Two scalar maps of shape (2, 1, 1) and a diffusion volume of shape (2, 1, 1, 2), so that
  no resampling is needed; the registration service of this setting returns a constant
  volume on the reference grid.
\<close>

definition example_row :: row where
  "example_row = \<lparr>ses = ''01'', subject = ''A''\<rparr>"

definition example_dwi :: "scalar ndarray" where
  "example_dwi = \<lparr>shape = [2, 1, 1, 2], data = [Fin 1, Fin 2, Fin 3, Fin 4]\<rparr>"

definition example_fa :: "scalar ndarray" where
  "example_fa = \<lparr>shape = [2, 1, 1], data = [Fin (1 / 10), Fin (1 / 2)]\<rparr>"

definition example_md :: "scalar ndarray" where
  "example_md = \<lparr>shape = [2, 1, 1], data = [Fin (1 / 1000), Fin (3 / 1000)]\<rparr>"

definition example_afq :: afq where
  "example_afq =
     \<lparr>get_data_gtab = (\<lambda>r. Inr (example_dwi, (), \<lparr>fdata = example_dwi, affine = Some []\<rparr>)),
      scalar_dict = [(''dti_fa'', \<lambda>r. Inr ''fa.nii.gz''), (''dti_md'', \<lambda>r. Inr ''md.nii.gz'')]\<rparr>"

definition example_world :: world where
  "example_world =
     \<lparr>nib_load = (\<lambda>f. if f = ''fa.nii.gz'' then Inr \<lparr>fdata = example_fa, affine = Some []\<rparr>
                      else if f = ''md.nii.gz'' then Inr \<lparr>fdata = example_md, affine = Some []\<rparr>
                      else if f = ''labels.nii.gz''
                      then Inr \<lparr>fdata = \<lparr>shape = [2, 1, 1], data = [Fin 0, Fin 2]\<rparr>,
                                affine = Some []\<rparr>
                      else Inl ''no such file''),
      reg_resample = (\<lambda>moving static moving_affine static_affine.
                        Inr (np_full (shape static) (Fin (3 / 5))))\<rparr>"


section \<open>Properties\<close>

subsection \<open>Auxiliary facts about arrays and the combiner\<close>

lemma np_logical_no_TypeError: "np_logical f x y \<noteq> Inl (TypeError msg)"
  by (simp add: np_logical_def split: option.split)

lemma np_logical_broadcastable:
  "broadcast_shapes (shape x) (shape y) \<noteq> None \<Longrightarrow> \<exists>z. np_logical f x y = Inr z"
  by (auto simp: np_logical_def split: option.split)

lemma map2_replicate_left: "length xs = n \<Longrightarrow> map2 f (replicate n b) xs = map (f b) xs"
  by (induction xs arbitrary: n) auto

lemma map2_map_map: "map2 h (map f xs) (map g xs) = map (\<lambda>v. h (f v) (g v)) xs"
  by (induction xs) auto

lemma np_logical_pointwise:
  "np_logical h (map_array P a) (map_array Q a) = Inr (map_array (\<lambda>v. h (P v) (Q v)) a)"
  by (simp add: np_logical_def map_array_def map2_map_map)

lemma fold_in_and_pointwise:
  "combine m = ''and'' \<Longrightarrow> mask m = map_array P a \<Longrightarrow>
   fold_in m (map_array Q a) = Inr (m\<lparr>mask := map_array (\<lambda>v. P v \<and> Q v) a\<rparr>)"
  by (simp add: fold_in_def combine_mask_def np_logical_and_def np_logical_pointwise)

lemma fold_in_or_pointwise:
  "combine m = ''or'' \<Longrightarrow> mask m = map_array P a \<Longrightarrow>
   fold_in m (map_array Q a) = Inr (m\<lparr>mask := map_array (\<lambda>v. P v \<or> Q v) a\<rparr>)"
  by (simp add: fold_in_def combine_mask_def np_logical_or_def np_logical_pointwise)

lemma np_full_pointwise: "wf_array a \<Longrightarrow> np_full (shape a) b = map_array (\<lambda>_. b) a"
  by (simp add: np_full_def map_array_def wf_array_def map_replicate_const)

lemma init_and_pointwise:
  "wf_array a \<Longrightarrow>
   MaskCombiner_init (shape a) ''and'' = Inr \<lparr>combine = ''and'', mask = map_array (\<lambda>_. True) a\<rparr>"
  by (simp add: MaskCombiner_init_def np_ones_bool_def np_full_pointwise)

lemma init_or_pointwise:
  "wf_array a \<Longrightarrow>
   MaskCombiner_init (shape a) ''or'' = Inr \<lparr>combine = ''or'', mask = map_array (\<lambda>_. False) a\<rparr>"
  by (simp add: MaskCombiner_init_def np_zeros_bool_def np_full_pointwise)





lemma dtype_of_astype [simp]: "dtype_of (astype x t) = t"
  by (cases t) simp_all

subsection \<open>Resolution of the calls\<close>

lemma lookup_get_mask [simp]:
  "lookup_method C_MaskFile M_get_mask = Some C_MaskFile"
  "lookup_method C_FullMask M_get_mask = Some C_FullMask"
  "lookup_method C_LabelledMaskFile M_get_mask = Some C_MaskFile"
  "lookup_method C_ThresholdedMaskFile M_get_mask = Some C_MaskFile"
  "lookup_method C_ScalarMask M_get_mask = Some C_MaskFile"
  "lookup_method C_ThresholdedScalarMask M_get_mask = Some C_MaskFile"
  "lookup_method C_CombinedMask M_get_mask = Some C_CombinedMask"
  by code_simp+

lemma lookup_find_path [simp]:
  "lookup_method C_MaskFile M_find_path = Some C_MaskFile"
  "lookup_method C_FullMask M_find_path = Some C_FullMask"
  "lookup_method C_LabelledMaskFile M_find_path = Some C_MaskFile"
  "lookup_method C_ThresholdedMaskFile M_find_path = Some C_MaskFile"
  "lookup_method C_ScalarMask M_find_path = Some C_ScalarMask"
  "lookup_method C_ThresholdedScalarMask M_find_path = Some C_ScalarMask"
  "lookup_method C_CombinedMask M_find_path = Some C_CombinedMask"
  by code_simp+

lemma lookup_get_path_data_affine [simp]:
  "lookup_method C_MaskFile M_get_path_data_affine = Some C_MaskFile"
  "lookup_method C_LabelledMaskFile M_get_path_data_affine = Some C_MaskFile"
  "lookup_method C_ThresholdedMaskFile M_get_path_data_affine = Some C_MaskFile"
  "lookup_method C_ScalarMask M_get_path_data_affine = Some C_ScalarMask"
  "lookup_method C_ThresholdedScalarMask M_get_path_data_affine = Some C_ScalarMask"
  by code_simp+

lemma lookup_apply_conditions [simp]:
  "lookup_method C_MaskFile M_apply_conditions = Some C_MaskFile"
  "lookup_method C_LabelledMaskFile M_apply_conditions = Some C_LabelledMaskFile"
  "lookup_method C_ThresholdedMaskFile M_apply_conditions = Some C_ThresholdedMaskFile"
  "lookup_method C_ScalarMask M_apply_conditions = Some C_MaskFile"
  "lookup_method C_ThresholdedScalarMask M_apply_conditions = Some C_ThresholdedMaskFile"
  by code_simp+

lemma lookup_combine_mask_cls:
  "lookup_method C_NoneType M_combine_mask = None"
  "lookup_method C_MaskCombiner M_combine_mask = Some C_MaskCombiner"
  "lookup_method C_MaskFile M_combine_mask = None"
  "lookup_method C_FullMask M_combine_mask = None"
  "lookup_method C_LabelledMaskFile M_combine_mask = None"
  "lookup_method C_ThresholdedMaskFile M_combine_mask = None"
  "lookup_method C_ScalarMask M_combine_mask = None"
  "lookup_method C_ThresholdedScalarMask M_combine_mask = None"
  "lookup_method C_CombinedMask M_combine_mask = None"
  by code_simp+

lemma lookup_combine_mask_child: "lookup_method (class_of m) M_combine_mask = None"
  by (cases m) (simp_all add: lookup_combine_mask_cls)

subsection \<open>The combiner\<close>

text \<open>
  C5. A combiner on which no fold is performed holds the identity of its operator:
  all-false of the given shape for "or", all-true for "and". Hence label-based condition
  application with both label lists None returns that identity array, of the shape of the
  input, for the configured operator.
\<close>

theorem combiner_zero_folds_identity:
  "MaskCombiner_init S ''or'' =
      Inr \<lparr>combine = ''or'', mask = \<lparr>shape = S, data = replicate (prod_list S) False\<rparr>\<rparr>
   \<and> MaskCombiner_init S ''and'' =
      Inr \<lparr>combine = ''and'', mask = \<lparr>shape = S, data = replicate (prod_list S) True\<rparr>\<rparr>
   \<and> LabelledMaskFile_apply_conditions (LabelledMaskFile sfx scp fn None None ''or'') a file =
      Inr (BoolArray \<lparr>shape = shape a, data = replicate (prod_list (shape a)) False\<rparr>,
           [(''source'', MStr file), (''inclusive_labels'', MNone),
            (''exclusive_lavels'', MNone), (''combined_with'', MStr ''or'')])
   \<and> LabelledMaskFile_apply_conditions (LabelledMaskFile sfx scp fn None None ''and'') a file =
      Inr (BoolArray \<lparr>shape = shape a, data = replicate (prod_list (shape a)) True\<rparr>,
           [(''source'', MStr file), (''inclusive_labels'', MNone),
            (''exclusive_lavels'', MNone), (''combined_with'', MStr ''and'')])"
  by (simp add: MaskCombiner_init_def LabelledMaskFile_apply_conditions_def bind_def
      fold_optional_labels_def np_zeros_bool_def np_ones_bool_def np_full_def meta_labels_def)

text \<open>
  C7. An operator tag other than "and" and "or" makes the constructor raise the
  configuration error (a TypeError naming the tag) without building an array, and makes
  \<^verbatim>\<open>combine_mask\<close> on a combiner whose tag was set to it raise the same error and leave
  the combiner, running mask included, as it was. With the tag "and" or "or" the
  constructor returns, \<^verbatim>\<open>combine_mask\<close> never raises a configuration error, and it
  returns whenever the operand can be broadcast against the running mask.
\<close>

theorem combiner_operator_tag_checked:
  "(tag \<noteq> ''and'' \<and> tag \<noteq> ''or'' \<longrightarrow>
      MaskCombiner_init S tag = Inl (TypeError (combine_illdefined_message tag))
    \<and> combine_mask (m\<lparr>combine := tag\<rparr>) other =
        (Inl (TypeError (combine_illdefined_message tag)), m\<lparr>combine := tag\<rparr>))
   \<and> (tag = ''and'' \<or> tag = ''or'' \<longrightarrow>
      (\<exists>c. MaskCombiner_init S tag = Inr c)
    \<and> (\<forall>msg. fst (combine_mask (m\<lparr>combine := tag\<rparr>) other) \<noteq> Inl (TypeError msg))
    \<and> (broadcast_shapes (shape (mask m)) (shape other) \<noteq> None \<longrightarrow>
         fst (combine_mask (m\<lparr>combine := tag\<rparr>) other) = Inr ()))"
proof (intro conjI impI)
  assume bad: "tag \<noteq> ''and'' \<and> tag \<noteq> ''or''"
  then show "MaskCombiner_init S tag = Inl (TypeError (combine_illdefined_message tag))"
    by (simp add: MaskCombiner_init_def combine_illdefined_def)
  from bad show "combine_mask (m\<lparr>combine := tag\<rparr>) other =
        (Inl (TypeError (combine_illdefined_message tag)), m\<lparr>combine := tag\<rparr>)"
    by (simp add: combine_mask_def combine_illdefined_def)
next
  assume ok: "tag = ''and'' \<or> tag = ''or''"
  then show "\<exists>c. MaskCombiner_init S tag = Inr c"
    by (auto simp: MaskCombiner_init_def)
  from ok show "\<forall>msg. fst (combine_mask (m\<lparr>combine := tag\<rparr>) other) \<noteq> Inl (TypeError msg)"
    using np_logical_no_TypeError
    by (auto simp: combine_mask_def np_logical_or_def np_logical_and_def split: sum.split)
  assume bc: "broadcast_shapes (shape (mask m)) (shape other) \<noteq> None"
  obtain z1 where z1: "np_logical (\<or>) (mask m) other = Inr z1"
    using np_logical_broadcastable[OF bc] by blast
  obtain z2 where z2: "np_logical (\<and>) (mask m) other = Inr z2"
    using np_logical_broadcastable[OF bc] by blast
  from ok z1 z2 show "fst (combine_mask (m\<lparr>combine := tag\<rparr>) other) = Inr ()"
    by (auto simp: combine_mask_def np_logical_or_def np_logical_and_def)
qed

theorem combiner_operator_tag_checked_witness:
  "(''xor'' \<noteq> ''and'' \<and> ''xor'' \<noteq> ''or'')
   \<and> MaskCombiner_init [2] ''xor'' = Inl (TypeError (combine_illdefined_message ''xor''))
   \<and> combine_mask \<lparr>combine = ''xor'', mask = \<lparr>shape = [2], data = [True, False]\<rparr>\<rparr>
        \<lparr>shape = [2], data = [False, False]\<rparr> =
       (Inl (TypeError (combine_illdefined_message ''xor'')),
        \<lparr>combine = ''xor'', mask = \<lparr>shape = [2], data = [True, False]\<rparr>\<rparr>)
   \<and> broadcast_shapes [2] [2] \<noteq> None
   \<and> fst (combine_mask \<lparr>combine = ''and'', mask = \<lparr>shape = [2], data = [True, False]\<rparr>\<rparr>
        \<lparr>shape = [2], data = [False, False]\<rparr>) = Inr ()"
  using combiner_operator_tag_checked [of "''xor''" "[2]"
      "\<lparr>combine = ''and'', mask = \<lparr>shape = [2], data = [True, False]\<rparr>\<rparr>"
      "\<lparr>shape = [2], data = [False, False]\<rparr>"]
    combiner_operator_tag_checked [of "''and''" "[2]"
      "\<lparr>combine = ''and'', mask = \<lparr>shape = [2], data = [True, False]\<rparr>\<rparr>"
      "\<lparr>shape = [2], data = [False, False]\<rparr>"]
  by (simp add: broadcast_shapes_def)

subsection \<open>Condition application\<close>

text \<open>
  C3. On every (well-formed) input array, the threshold conditions with both bounds and
  the operator "and" give the boolean array of the same shape that is true exactly where
  lower_bound < value < upper_bound, both comparisons strict. A bound that is None is not
  folded: with only a lower bound the result is true exactly where value > lower_bound,
  with only an upper bound exactly where value < upper_bound, under either operator.
\<close>

theorem threshold_conditions_strict_bounds:
  assumes wf: "wf_array a"
  shows "ThresholdedMaskFile_apply_conditions
           (ThresholdedMaskFile sfx scp fn (Some lb) (Some ub) ''and'') a file =
         Inr (BoolArray \<lparr>shape = shape a,
                         data = map (\<lambda>v. np_less lb v \<and> np_less v ub) (data a)\<rparr>,
              [(''source'', MStr file), (''upper_bound'', MNum ub),
               (''lower_bound'', MNum lb), (''combined_with'', MStr ''and'')])
       \<and> (c = ''and'' \<or> c = ''or'' \<longrightarrow>
           ThresholdedMaskFile_apply_conditions
             (ThresholdedMaskFile sfx scp fn (Some lb) None c) a file =
           Inr (BoolArray \<lparr>shape = shape a, data = map (\<lambda>v. np_less lb v) (data a)\<rparr>,
                [(''source'', MStr file), (''upper_bound'', MNone),
                 (''lower_bound'', MNum lb), (''combined_with'', MStr c)])
         \<and> ThresholdedMaskFile_apply_conditions
             (ThresholdedMaskFile sfx scp fn None (Some ub) c) a file =
           Inr (BoolArray \<lparr>shape = shape a, data = map (\<lambda>v. np_less v ub) (data a)\<rparr>,
                [(''source'', MStr file), (''upper_bound'', MNum ub),
                 (''lower_bound'', MNone), (''combined_with'', MStr c)]))"
proof (intro conjI impI)
  have swap: "(\<lambda>v. np_less v ub \<and> np_less lb v) = (\<lambda>v. np_less lb v \<and> np_less v ub)"
    by auto
  show "ThresholdedMaskFile_apply_conditions
           (ThresholdedMaskFile sfx scp fn (Some lb) (Some ub) ''and'') a file =
         Inr (BoolArray \<lparr>shape = shape a,
                         data = map (\<lambda>v. np_less lb v \<and> np_less v ub) (data a)\<rparr>,
              [(''source'', MStr file), (''upper_bound'', MNum ub),
               (''lower_bound'', MNum lb), (''combined_with'', MStr ''and'')])"
    using wf
    by (simp add: ThresholdedMaskFile_apply_conditions_def bind_def init_and_pointwise
        fold_bound_def fold_in_and_pointwise np_greater_def meta_bound_def swap)
      (simp add: map_array_def)
next
  assume c: "c = ''and'' \<or> c = ''or''"
  then show "ThresholdedMaskFile_apply_conditions
             (ThresholdedMaskFile sfx scp fn (Some lb) None c) a file =
           Inr (BoolArray \<lparr>shape = shape a, data = map (\<lambda>v. np_less lb v) (data a)\<rparr>,
                [(''source'', MStr file), (''upper_bound'', MNone),
                 (''lower_bound'', MNum lb), (''combined_with'', MStr c)])"
    using wf
    by (elim disjE;
        simp add: ThresholdedMaskFile_apply_conditions_def bind_def init_and_pointwise
          init_or_pointwise fold_bound_def fold_in_and_pointwise fold_in_or_pointwise
          np_greater_def meta_bound_def;
        simp add: map_array_def)
  from c show "ThresholdedMaskFile_apply_conditions
             (ThresholdedMaskFile sfx scp fn None (Some ub) c) a file =
           Inr (BoolArray \<lparr>shape = shape a, data = map (\<lambda>v. np_less v ub) (data a)\<rparr>,
                [(''source'', MStr file), (''upper_bound'', MNum ub),
                 (''lower_bound'', MNone), (''combined_with'', MStr c)])"
    using wf
    by (elim disjE;
        simp add: ThresholdedMaskFile_apply_conditions_def bind_def init_and_pointwise
          init_or_pointwise fold_bound_def fold_in_and_pointwise fold_in_or_pointwise
          np_greater_def meta_bound_def;
        simp add: map_array_def)
qed

theorem threshold_conditions_strict_bounds_witness:
  "wf_array \<lparr>shape = [4], data = [Fin 0, Fin (1 / 2), Fin (9 / 10), NaN]\<rparr>
   \<and> ThresholdedMaskFile_apply_conditions
        (ThresholdedMaskFile ''brain_mask'' None Map.empty (Some (Fin (1 / 10)))
           (Some (Fin (4 / 5))) ''and'')
        \<lparr>shape = [4], data = [Fin 0, Fin (1 / 2), Fin (9 / 10), NaN]\<rparr> ''m.nii.gz'' =
      Inr (BoolArray \<lparr>shape = [4], data = [False, True, False, False]\<rparr>,
           [(''source'', MStr ''m.nii.gz''), (''upper_bound'', MNum (Fin (4 / 5))),
            (''lower_bound'', MNum (Fin (1 / 10))), (''combined_with'', MStr ''and'')])
   \<and> ThresholdedMaskFile_apply_conditions
        (ThresholdedMaskFile ''brain_mask'' None Map.empty (Some (Fin (1 / 10))) None ''or'')
        \<lparr>shape = [4], data = [Fin 0, Fin (1 / 2), Fin (9 / 10), NaN]\<rparr> ''m.nii.gz'' =
      Inr (BoolArray \<lparr>shape = [4], data = [False, True, True, False]\<rparr>,
           [(''source'', MStr ''m.nii.gz''), (''upper_bound'', MNone),
            (''lower_bound'', MNum (Fin (1 / 10))), (''combined_with'', MStr ''or'')])"
  using threshold_conditions_strict_bounds
    [of "\<lparr>shape = [4], data = [Fin 0, Fin (1 / 2), Fin (9 / 10), NaN]\<rparr>" "''brain_mask''"
        None Map.empty "Fin (1 / 10)" "Fin (4 / 5)" "''m.nii.gz''" "''or''"]
  by (simp add: wf_array_def)



subsection \<open>Resampling\<close>



subsection \<open>The full-volume mask\<close>

text \<open>
  C10. For every row on which the diffusion accessor returns, \<^verbatim>\<open>FullMask.get_mask\<close>
  returns an all-ones float64 array whose shape is the whole shape of the diffusion data,
  trailing axis included, with the metadata {source: "Entire Volume"}; the result is the
  same whatever the registration service does, as the resampling step is not part of it.
\<close>

theorem full_mask_all_ones:
  "(get_data_gtab a r = Inr (dwi_data, g, dwi_img) \<longrightarrow>
      get_mask w a r FullMask =
        Inr (FloatArray \<lparr>shape = shape dwi_data,
                         data = replicate (prod_list (shape dwi_data)) (Fin 1)\<rparr>,
             [(''source'', MStr ''Entire Volume'')]))
   \<and> get_mask w a r FullMask = get_mask w' a r FullMask"
  by (simp add: FullMask_get_mask_def bind_def external_def np_ones_def np_full_def)

theorem full_mask_all_ones_witness:
  "get_data_gtab example_afq example_row =
      Inr (example_dwi, (), \<lparr>fdata = example_dwi, affine = Some []\<rparr>)
   \<and> get_mask example_world example_afq example_row FullMask =
        Inr (FloatArray \<lparr>shape = [2, 1, 1, 2], data = [Fin 1, Fin 1, Fin 1, Fin 1]\<rparr>,
             [(''source'', MStr ''Entire Volume'')])"
  using full_mask_all_ones [of example_afq example_row example_dwi "()"
      "\<lparr>fdata = example_dwi, affine = Some []\<rparr>" example_world example_world]
  by (simp add: example_afq_def example_dwi_def numeral_eq_Suc)

subsection \<open>The path cache of the file-backed masks\<close>




lemma file_backed_attrs:
  assumes "file_backed m"
  shows "\<exists>fn. attr_fnames m = Inr fn" "\<exists>sfx. attr_suffix m = Inr sfx"
    "\<exists>scp. attr_scope m = Inr scp"
  using assms by (cases m; simp add: file_backed_def)+











subsection \<open>The thresholded scalar mask\<close>

lemma scalar_source_of_thresholded_scalar:
  "ScalarMask_get_path_data_affine w a r (ThresholdedScalarMask name lb ub c) =
   ScalarMask_get_path_data_affine w a r (ScalarMask name)"
  by (simp add: ScalarMask_get_path_data_affine_def)

lemma threshold_conditions_of_thresholded_scalar:
  "ThresholdedMaskFile_apply_conditions (ThresholdedScalarMask name lb ub c) raw file =
   ThresholdedMaskFile_apply_conditions (ThresholdedMaskFile sfx scp fn lb ub c) raw file"
  by (simp add: ThresholdedMaskFile_apply_conditions_def)

text \<open>
  C9. For every scalar name, bounds, operator and row, \<^verbatim>\<open>ThresholdedScalarMask.get_mask\<close>
  is the composition of the scalar source resolution of \<^verbatim>\<open>ScalarMask\<close>, the threshold
  conditions of \<^verbatim>\<open>ThresholdedMaskFile\<close> (with the same bounds and operator, whatever its
  file attributes) and the resampling; its \<^verbatim>\<open>find_path\<close> does nothing.
\<close>

theorem thresholded_scalar_mask_is_composition:
  "get_mask w a r (ThresholdedScalarMask name lb ub c) =
     composed_get_mask w a r (ScalarMask name) (ThresholdedMaskFile sfx scp fn lb ub c)
   \<and> find_path bids_layout subj session (ThresholdedScalarMask name lb ub c) =
     (Inr (), ThresholdedScalarMask name lb ub c)"
proof
  have "get_mask w a r (ThresholdedScalarMask name lb ub c) =
      MaskFile_get_mask w a r (ThresholdedScalarMask name lb ub c)"
    by simp
  also have "\<dots> = composed_get_mask w a r (ScalarMask name)
      (ThresholdedMaskFile sfx scp fn lb ub c)"
    unfolding MaskFile_get_mask_def composed_get_mask_def call_get_path_data_affine_def
      call_apply_conditions_def
    by (simp add: scalar_source_of_thresholded_scalar
        threshold_conditions_of_thresholded_scalar [of name lb ub c _ _ sfx scp fn])
  finally show "get_mask w a r (ThresholdedScalarMask name lb ub c) =
     composed_get_mask w a r (ScalarMask name) (ThresholdedMaskFile sfx scp fn lb ub c)" .
  show "find_path bids_layout subj session (ThresholdedScalarMask name lb ub c) =
     (Inr (), ThresholdedScalarMask name lb ub c)"
    by (simp add: ScalarMask_find_path_def)
qed

subsection \<open>The combined mask\<close>

text \<open>
  C2 (as amended). With an empty child list \<^verbatim>\<open>CombinedMask.get_mask\<close> never returns a
  mask: the loop does not run, the local \<^verbatim>\<open>mask\<close> is still \<^verbatim>\<open>None\<close>, and reading
  \<^verbatim>\<open>mask.mask\<close> raises AttributeError. That error is not one of the configuration errors
  of the module.
\<close>

theorem combined_mask_empty_list_attribute_error:
  "get_mask w a r (CombinedMask [] c) = Inl (AttributeError ''NoneType'' ''mask'')"
  by (simp add: obj_mask_def no_attribute_def bind_def)

text \<open>
  The claim as stated, that the empty child list raises a configuration error, fails in the
  concrete setting.
\<close>

theorem combined_mask_empty_list_counterexample:
  "\<not> raises_configuration_error
      (get_mask example_world example_afq example_row (CombinedMask [] ''and''))"
  by (simp add: obj_mask_def no_attribute_def bind_def raises_configuration_error_def)

lemma combined_loop_first_child:
  "get_mask w a r child = Inr x \<Longrightarrow>
   CombinedMask_loop w a r c (child # rest) m metas =
     Inl (AttributeError (class_name (class_of child)) ''combine_mask'')"
  by (cases x) (simp add: bind_def obj_combine_mask_def lookup_combine_mask_child
      no_attribute_def del: get_mask.simps)

lemma combined_mask_nonempty_raises:
  "get_mask w a r child = Inr x \<Longrightarrow>
   get_mask w a r (CombinedMask (child # rest) c) =
     Inl (AttributeError (class_name (class_of child)) ''combine_mask'')"
  using combined_loop_first_child [of w a r child x c rest PyNone "[]"]
  by (simp add: bind_def del: CombinedMask_loop.simps)

lemma example_child_fa:
  "get_mask example_world example_afq example_row
     (ThresholdedScalarMask ''dti_fa'' (Some (Fin (1 / 5))) None ''and'') =
   Inr (BoolArray \<lparr>shape = [2, 1, 1], data = [False, True]\<rparr>,
        [(''source'', MStr ''fa.nii.gz''), (''upper_bound'', MNone),
         (''lower_bound'', MNum (Fin (1 / 5))), (''combined_with'', MStr ''and'')])"
  by (simp add: MaskFile_get_mask_def call_get_path_data_affine_def call_apply_conditions_def
      ScalarMask_get_path_data_affine_def ThresholdedMaskFile_apply_conditions_def
      example_world_def example_afq_def example_dwi_def example_fa_def
      bind_def external_def subscript_def
      MaskCombiner_init_def fold_bound_def fold_in_def combine_mask_def
      np_logical_and_def np_logical_def np_ones_bool_def np_full_def map_array_def
      np_greater_def meta_bound_def resample_mask_def index_last0_def numeral_eq_Suc)

lemma example_child_md:
  "get_mask example_world example_afq example_row
     (ThresholdedScalarMask ''dti_md'' None (Some (Fin (1 / 500))) ''and'') =
   Inr (BoolArray \<lparr>shape = [2, 1, 1], data = [True, False]\<rparr>,
        [(''source'', MStr ''md.nii.gz''), (''upper_bound'', MNum (Fin (1 / 500))),
         (''lower_bound'', MNone), (''combined_with'', MStr ''and'')])"
  by (simp add: MaskFile_get_mask_def call_get_path_data_affine_def call_apply_conditions_def
      ScalarMask_get_path_data_affine_def ThresholdedMaskFile_apply_conditions_def
      example_world_def example_afq_def example_dwi_def example_md_def
      bind_def external_def subscript_def
      MaskCombiner_init_def fold_bound_def fold_in_def combine_mask_def
      np_logical_and_def np_logical_def np_ones_bool_def np_full_def map_array_def
      np_greater_def meta_bound_def resample_mask_def index_last0_def numeral_eq_Suc)

lemma combined_mask_nonempty_never_returns:
  "get_mask w a r (CombinedMask (child # rest) c) \<noteq> Inr y"
proof (cases "get_mask w a r child")
  case (Inl e)
  then have "CombinedMask_loop w a r c (child # rest) PyNone [] = Inl e"
    by (simp add: bind_def del: get_mask.simps)
  then have "get_mask w a r (CombinedMask (child # rest) c) = Inl e"
    by (simp add: bind_def del: CombinedMask_loop.simps)
  then show ?thesis by simp
next
  case (Inr x)
  from combined_mask_nonempty_raises [OF this, of rest c] show ?thesis
    by (simp del: get_mask.simps)
qed

text \<open>
  C1. The claim is that \<^verbatim>\<open>CombinedMask.get_mask\<close> returns the fold of the children's
  boolean outputs with their metadata under \<open>sources\<close>. In the concrete setting the two
  thresholded scalar masks of the docstring example return [False, True] and
  [True, False], so the claim asks for [False, False]; the code raises AttributeError
  instead, as the loop variable \<^verbatim>\<open>mask\<close> is the child and has no \<^verbatim>\<open>combine_mask\<close>.
\<close>

theorem combined_mask_docstring_example_raises:
  "get_mask example_world example_afq example_row
     (ThresholdedScalarMask ''dti_fa'' (Some (Fin (1 / 5))) None ''and'') =
     Inr (BoolArray \<lparr>shape = [2, 1, 1], data = [False, True]\<rparr>,
          [(''source'', MStr ''fa.nii.gz''), (''upper_bound'', MNone),
           (''lower_bound'', MNum (Fin (1 / 5))), (''combined_with'', MStr ''and'')])
   \<and> get_mask example_world example_afq example_row
     (ThresholdedScalarMask ''dti_md'' None (Some (Fin (1 / 500))) ''and'') =
     Inr (BoolArray \<lparr>shape = [2, 1, 1], data = [True, False]\<rparr>,
          [(''source'', MStr ''md.nii.gz''), (''upper_bound'', MNum (Fin (1 / 500))),
           (''lower_bound'', MNone), (''combined_with'', MStr ''and'')])
   \<and> get_mask example_world example_afq example_row
     (CombinedMask
        [ThresholdedScalarMask ''dti_fa'' (Some (Fin (1 / 5))) None ''and'',
         ThresholdedScalarMask ''dti_md'' None (Some (Fin (1 / 500))) ''and'']
        ''and'') =
     Inl (AttributeError ''ThresholdedScalarMask'' ''combine_mask'')"
  using example_child_fa example_child_md combined_mask_nonempty_raises [OF example_child_fa]
  by (simp del: get_mask.simps)

end
